theory Spec2Isabelle
  imports Complex_Main
begin

section \<open>The model assembler of chemprop: data model\<close>

text \<open>
  The development embeds \<^verbatim>\<open>chemprop/models/model.py\<close>: the class
  \<^verbatim>\<open>MoleculeModel\<close> (its constructor, \<^verbatim>\<open>create_encoder\<close>,
  \<^verbatim>\<open>create_ffn\<close>, \<^verbatim>\<open>featurize\<close>, \<^verbatim>\<open>forward\<close>) and the function
  \<^verbatim>\<open>build_model\<close>.

  Python exceptions are values: every function that can raise returns \<open>error + 'a\<close>.
  \<open>AssertionError\<close> is what the \<^verbatim>\<open>assert\<close> of the constructor raises (the
  configuration conflict of the specification); \<open>AttributeError\<close> is raised when an
  attribute is read before it was assigned; \<open>ValueError\<close> is what the activation lookup
  raises on a name it does not support and what \<^verbatim>\<open>nn.Dropout\<close> raises on a
  probability outside \<open>[0, 1]\<close>; \<open>RuntimeError\<close> is what \<^verbatim>\<open>nn.Linear\<close> raises on
  a negative size.
\<close>

datatype error = AssertionError | AttributeError string | ValueError string | RuntimeError string

text \<open>
  The modules placed into the feed-forward head. \<open>Dropout p\<close> is \<^verbatim>\<open>nn.Dropout(p)\<close>,
  \<open>Linear i o\<close> is \<^verbatim>\<open>nn.Linear(i, o)\<close> and \<open>Activation a\<close> is the module returned
  by \<^verbatim>\<open>get_activation_function\<close>. The descriptors record what the source passes to
  the constructors of the tensor library; sizes are Python integers.
\<close>

datatype 'a module = Dropout real | Linear int int | Activation 'a

text \<open>
  The constructors of the tensor library, with the checks they make on their arguments:
  \<^verbatim>\<open>nn.Dropout(p)\<close> raises \<^verbatim>\<open>ValueError\<close> when \<open>p < 0\<close> or \<open>p > 1\<close>, and
  \<^verbatim>\<open>nn.Linear(i, o)\<close> allocates an \<open>o\<close> by \<open>i\<close> weight tensor, which raises
  \<^verbatim>\<open>RuntimeError\<close> when a size is negative.
\<close>

definition nn_Dropout :: "real \<Rightarrow> error + 'a module" where
  "nn_Dropout p =
     (if p < 0 \<or> 1 < p
      then Inl (ValueError ''dropout probability has to be between 0 and 1'')
      else Inr (Dropout p))"

definition nn_Linear :: "int \<Rightarrow> int \<Rightarrow> error + 'a module" where
  "nn_Linear i o' =
     (if i < 0 \<or> o' < 0
      then Inl (RuntimeError ''Trying to create tensor with negative dimension'')
      else Inr (Linear i o'))"

text \<open>
  The argument namespace, restricted to the attributes that \<^verbatim>\<open>model.py\<close> reads or
  writes. \<open>output_size\<close> is optional: \<^verbatim>\<open>build_model\<close> assigns it, so it need not
  exist beforehand (\<open>None\<close> is the absent attribute).
\<close>

record args =
  num_tasks :: int
  dataset_type :: string
  multiclass_num_classes :: int
  featurizer :: bool
  features_only :: bool
  features_size :: int
  hidden_size :: int
  use_input_features :: bool
  features_dim :: int
  dropout :: real
  activation :: string
  ffn_num_layers :: int
  ffn_hidden_size :: int
  output_size :: "int option"

text \<open>
  The attributes of a \<^verbatim>\<open>MoleculeModel\<close> object. \<open>self_training\<close> is the run-mode
  flag of \<^verbatim>\<open>nn.Module\<close>, \<open>True\<close> after construction. An attribute that is assigned
  only on some paths is optional: \<open>self_sigmoid\<close> is \<open>Some ()\<close> once
  \<^verbatim>\<open>nn.Sigmoid()\<close> was stored, and \<open>self_multiclass_softmax\<close> is \<open>Some d\<close> once
  \<^verbatim>\<open>nn.Softmax(dim=d)\<close> was stored.
\<close>

record ('e, 'a) MoleculeModel =
  self_training :: bool
  self_featurizer :: bool
  self_classification :: bool
  self_multiclass :: bool
  self_sigmoid :: "unit option"
  self_multiclass_softmax :: "int option"
  self_encoder :: "'e option"
  self_num_classes :: "int option"
  self_ffn :: "'a module list option"

section \<open>Construction\<close>

text \<open>\<^verbatim>\<open>MoleculeModel.__init__(self, featurizer, classification, multiclass)\<close>.\<close>

definition MoleculeModel_init :: "bool \<Rightarrow> bool \<Rightarrow> bool \<Rightarrow> error + ('e, 'a) MoleculeModel" where
  "MoleculeModel_init featurizer' classification multiclass =
     (if classification \<and> multiclass then Inl AssertionError
      else
        let self = \<lparr> self_training = True,
                     self_featurizer = featurizer',
                     self_classification = classification,
                     self_multiclass = multiclass,
                     self_sigmoid = None,
                     self_multiclass_softmax = None,
                     self_encoder = None,
                     self_num_classes = None,
                     self_ffn = None \<rparr>
        in if self_featurizer self then Inr self
           else
             let self1 = (if self_classification self
                          then self\<lparr>self_sigmoid := Some ()\<rparr> else self);
                 self2 = (if self_multiclass self1
                          then self1\<lparr>self_multiclass_softmax := Some 2\<rparr> else self1)
             in Inr self2)"

text \<open>
  \<^verbatim>\<open>create_encoder(self, args)\<close>. The message passing network \<^verbatim>\<open>MPN\<close> lives in
  another file of the package; it is a parameter here, a function of the arguments.
\<close>

definition create_encoder :: "(args \<Rightarrow> 'e) \<Rightarrow> ('e, 'a) MoleculeModel \<Rightarrow> args \<Rightarrow> ('e, 'a) MoleculeModel" where
  "create_encoder MPN self a = self\<lparr>self_encoder := Some (MPN a)\<rparr>"

text \<open>
  The loop \<^verbatim>\<open>for _ in range(args.ffn_num_layers - 2): ffn.extend([activation, dropout,
  nn.Linear(args.ffn_hidden_size, args.ffn_hidden_size)])\<close>, by recursion on the number
  of iterations that remain. Each iteration constructs a linear module, which may raise.
\<close>

primrec extend_loop ::
  "nat \<Rightarrow> 'a module \<Rightarrow> 'a module \<Rightarrow> int \<Rightarrow> 'a module list \<Rightarrow> error + 'a module list" where
  "extend_loop 0 act drp h ffn = Inr ffn"
| "extend_loop (Suc k) act drp h ffn =
     (case nn_Linear h h of
        Inl e \<Rightarrow> Inl e
      | Inr lin \<Rightarrow> extend_loop k act drp h (ffn @ [act, drp, lin]))"

text \<open>
  \<^verbatim>\<open>create_ffn(self, args)\<close>. \<^verbatim>\<open>get_activation_function\<close> lives in
  \<^verbatim>\<open>chemprop.nn_utils\<close>; it is a parameter that either raises or returns the
  activation module. \<^verbatim>\<open>range(n)\<close> is empty for a negative \<open>n\<close>, hence \<open>nat\<close>.
  \<^verbatim>\<open>args.output_size\<close> is read only where the source reads it, and every module is
  constructed where the source constructs it, in the order of the source, so that the first
  constructor or lookup that raises ends the function.
\<close>

definition create_ffn ::
  "(string \<Rightarrow> error + 'a) \<Rightarrow> ('e, 'a) MoleculeModel \<Rightarrow> args \<Rightarrow> error + ('e, 'a) MoleculeModel" where
  "create_ffn get_activation_function self0 a =
     (let self = (if self_multiclass self0
                  then self0\<lparr>self_num_classes := Some (multiclass_num_classes a)\<rparr> else self0);
          first_linear_dim =
            (if features_only a then features_size a
             else if use_input_features a then hidden_size a + features_dim a
             else hidden_size a)
      in case nn_Dropout (dropout a) of
           Inl e \<Rightarrow> Inl e
         | Inr dropout' \<Rightarrow>
             (case get_activation_function (activation a) of
                Inl e \<Rightarrow> Inl e
              | Inr act \<Rightarrow>
                  let activation' = Activation act in
                  if ffn_num_layers a = 1 then
                    (case output_size a of
                       None \<Rightarrow> Inl (AttributeError ''output_size'')
                     | Some out \<Rightarrow>
                         (case nn_Linear first_linear_dim out of
                            Inl e \<Rightarrow> Inl e
                          | Inr lin \<Rightarrow> Inr (self\<lparr>self_ffn := Some [dropout', lin]\<rparr>)))
                  else
                    (case nn_Linear first_linear_dim (ffn_hidden_size a) of
                       Inl e \<Rightarrow> Inl e
                     | Inr lin0 \<Rightarrow>
                         (case extend_loop (nat (ffn_num_layers a - 2)) activation' dropout'
                                 (ffn_hidden_size a) [dropout', lin0] of
                            Inl e \<Rightarrow> Inl e
                          | Inr ffn \<Rightarrow>
                              if \<not> self_featurizer self then
                                (case output_size a of
                                   None \<Rightarrow> Inl (AttributeError ''output_size'')
                                 | Some out \<Rightarrow>
                                     (case nn_Linear (ffn_hidden_size a) out of
                                        Inl e \<Rightarrow> Inl e
                                      | Inr lin \<Rightarrow>
                                          Inr (self\<lparr>self_ffn :=
                                                 Some (ffn @ [activation', dropout', lin])\<rparr>)))
                              else Inr (self\<lparr>self_ffn := Some ffn\<rparr>)))))"

text \<open>
  Modelled from the spec: \<^verbatim>\<open>initialize_weights\<close> of \<^verbatim>\<open>chemprop.nn_utils\<close>, which
  is not among the sources. The specification says of it: "given an assembled model,
  mutates all trainable parameters in place using a standard initialization scheme". The
  values of the trainable parameters are not attributes of the record above (the tensor
  engine below supplies them), so on the record the pass changes nothing.
\<close>

definition initialize_weights :: "('e, 'a) MoleculeModel \<Rightarrow> ('e, 'a) MoleculeModel" where
  "initialize_weights model = model"

text \<open>
  \<^verbatim>\<open>build_model(args)\<close>. The function assigns \<^verbatim>\<open>args.output_size\<close>, so the
  namespace is part of its result: it returns the namespace as it is afterwards together
  with the model.
\<close>

definition build_model ::
  "(string \<Rightarrow> error + 'a) \<Rightarrow> (args \<Rightarrow> 'e) \<Rightarrow> args \<Rightarrow> error + (args \<times> ('e, 'a) MoleculeModel)" where
  "build_model get_activation_function MPN a0 =
     (let output_size' = num_tasks a0;
          a1 = a0\<lparr>output_size := Some output_size'\<rparr>
      in case (if dataset_type a1 = ''multiclass''
               then (case output_size a1 of
                       None \<Rightarrow> Inl (AttributeError ''output_size'')
                     | Some s \<Rightarrow> Inr (a1\<lparr>output_size := Some (s * multiclass_num_classes a1)\<rparr>))
               else Inr a1) of
           Inl e \<Rightarrow> Inl e
         | Inr a2 \<Rightarrow>
             (case MoleculeModel_init (featurizer a2)
                     (dataset_type a2 = ''classification'')
                     (dataset_type a2 = ''multiclass'') of
                Inl e \<Rightarrow> Inl e
              | Inr model \<Rightarrow>
                  let model1 = create_encoder MPN model a2 in
                  (case create_ffn get_activation_function model1 a2 of
                     Inl e \<Rightarrow> Inl e
                   | Inr model2 \<Rightarrow> Inr (a2, initialize_weights model2))))"

section \<open>Running the model\<close>

text \<open>
  The tensor library is a parameter: an engine gives the meaning of each module call and
  tensor operation that \<^verbatim>\<open>model.py\<close> performs, on tensors of type \<open>'v\<close>.
  \<^item> \<open>encoder_call enc training input\<close> is \<^verbatim>\<open>self.encoder(*input)\<close>;
  \<^item> \<open>linear_call k i o\<close> is the call of the \<^verbatim>\<open>nn.Linear(i, o)\<close> stored under key
    \<open>k\<close> of \<^verbatim>\<open>self.ffn\<close>: the engine holds the weights, one set per key, as the state
    dictionary of the model does;
  \<^item> \<open>dropout_call p training\<close> is the call of \<^verbatim>\<open>nn.Dropout(p)\<close>;
  \<^item> \<open>activation_call a\<close> is the call of the activation module;
  \<^item> \<open>sigmoid_call\<close> and \<open>softmax_call d\<close> are the calls of \<^verbatim>\<open>nn.Sigmoid()\<close> and
    \<^verbatim>\<open>nn.Softmax(dim=d)\<close>;
  \<^item> \<open>tensor_size t d\<close> is \<^verbatim>\<open>t.size(d)\<close> and \<open>tensor_reshape t shape\<close> is
    \<^verbatim>\<open>t.reshape(shape)\<close>.
  Dropout draws random numbers, and the encoder may: both thread the state \<open>'g\<close> of the
  random number generator. An error raised inside the engine is left to the engine, as a
  value of \<open>'v\<close> that its operations pass on.
\<close>

record ('x, 'e, 'a, 'v, 'g) engine =
  encoder_call :: "'e \<Rightarrow> bool \<Rightarrow> 'x \<Rightarrow> 'g \<Rightarrow> 'v \<times> 'g"
  linear_call :: "nat \<Rightarrow> int \<Rightarrow> int \<Rightarrow> 'v \<Rightarrow> 'v"
  dropout_call :: "real \<Rightarrow> bool \<Rightarrow> 'v \<Rightarrow> 'g \<Rightarrow> 'v \<times> 'g"
  activation_call :: "'a \<Rightarrow> 'v \<Rightarrow> 'v"
  sigmoid_call :: "'v \<Rightarrow> 'v"
  softmax_call :: "int \<Rightarrow> 'v \<Rightarrow> 'v"
  tensor_size :: "'v \<Rightarrow> int \<Rightarrow> int"
  tensor_reshape :: "'v \<Rightarrow> int list \<Rightarrow> 'v"

text \<open>The call of the module stored under key \<open>k\<close> of the head.\<close>

fun module_call ::
  "('x, 'e, 'a, 'v, 'g) engine \<Rightarrow> bool \<Rightarrow> nat \<Rightarrow> 'a module \<Rightarrow> 'v \<Rightarrow> 'g \<Rightarrow> 'v \<times> 'g" where
  "module_call E tr k (Dropout p) v g = dropout_call E p tr v g"
| "module_call E tr k (Linear i o') v g = (linear_call E k i o' v, g)"
| "module_call E tr k (Activation a) v g = (activation_call E a v, g)"

text \<open>
  The call of an \<^verbatim>\<open>nn.Sequential\<close>: its modules in order, the first of them stored
  under key \<open>k\<close>.
\<close>

fun Sequential_call ::
  "('x, 'e, 'a, 'v, 'g) engine \<Rightarrow> bool \<Rightarrow> nat \<Rightarrow> 'a module list \<Rightarrow> 'v \<Rightarrow> 'g \<Rightarrow> 'v \<times> 'g" where
  "Sequential_call E tr k [] v g = (v, g)"
| "Sequential_call E tr k (m # ms) v g =
     (case module_call E tr k m v g of (v', g') \<Rightarrow> Sequential_call E tr (Suc k) ms v' g')"

text \<open>\<^verbatim>\<open>nn.Module.train(mode)\<close>; \<^verbatim>\<open>eval()\<close> is \<open>Module_train False\<close>.\<close>

definition Module_train :: "bool \<Rightarrow> ('e, 'a) MoleculeModel \<Rightarrow> ('e, 'a) MoleculeModel" where
  "Module_train mode self = self\<lparr>self_training := mode\<rparr>"

text \<open>
  The expression \<^verbatim>\<open>ffn(self.encoder(*input))\<close> that \<^verbatim>\<open>forward\<close> and
  \<^verbatim>\<open>featurize\<close> share: the encoder, then the modules of \<open>ffn\<close> from key 0 on.
\<close>

definition head_call ::
  "('x, 'e, 'a, 'v, 'g) engine \<Rightarrow> bool \<Rightarrow> 'e \<Rightarrow> 'a module list \<Rightarrow> 'x \<Rightarrow> 'g \<Rightarrow> 'v \<times> 'g" where
  "head_call E tr encoder ffn input g =
     (case encoder_call E encoder tr input g of
        (encoded, g1) \<Rightarrow> Sequential_call E tr 0 ffn encoded g1)"

text \<open>
  \<^verbatim>\<open>featurize(self, *input)\<close>. The slice \<^verbatim>\<open>self.ffn[:-1]\<close> keeps every module but
  the last one, under the keys they had.
\<close>

definition featurize ::
  "('x, 'e, 'a, 'v, 'g) engine \<Rightarrow> ('e, 'a) MoleculeModel \<Rightarrow> 'x \<Rightarrow> 'g \<Rightarrow> error + ('v \<times> 'g)" where
  "featurize E self input g =
     (case self_ffn self of
        None \<Rightarrow> Inl (AttributeError ''ffn'')
      | Some ffn \<Rightarrow>
          let fnn_without_last_layer = butlast ffn in
          (case self_encoder self of
             None \<Rightarrow> Inl (AttributeError ''encoder'')
           | Some encoder \<Rightarrow>
               Inr (head_call E (self_training self) encoder fnn_without_last_layer input g)))"

text \<open>\<^verbatim>\<open>forward(self, *input)\<close>.\<close>

definition forward ::
  "('x, 'e, 'a, 'v, 'g) engine \<Rightarrow> ('e, 'a) MoleculeModel \<Rightarrow> 'x \<Rightarrow> 'g \<Rightarrow> error + ('v \<times> 'g)" where
  "forward E self input g =
     (case self_ffn self of
        None \<Rightarrow> Inl (AttributeError ''ffn'')
      | Some ffn \<Rightarrow>
          (case self_encoder self of
             None \<Rightarrow> Inl (AttributeError ''encoder'')
           | Some encoder \<Rightarrow>
               (case head_call E (self_training self) encoder ffn input g of
                  (output, g2) \<Rightarrow>
                    if self_featurizer self then Inr (output, g2)
                    else
                      (case (if self_classification self \<and> \<not> self_training self
                             then (case self_sigmoid self of
                                     None \<Rightarrow> Inl (AttributeError ''sigmoid'')
                                   | Some u \<Rightarrow> Inr (sigmoid_call E output))
                             else Inr output) of
                         Inl e \<Rightarrow> Inl e
                       | Inr output1 \<Rightarrow>
                           if self_multiclass self then
                             (case self_num_classes self of
                                None \<Rightarrow> Inl (AttributeError ''num_classes'')
                              | Some nc \<Rightarrow>
                                  let output2 = tensor_reshape E output1
                                                  [tensor_size E output1 0, - 1, nc]
                                  in if \<not> self_training self then
                                       (case self_multiclass_softmax self of
                                          None \<Rightarrow> Inl (AttributeError ''multiclass_softmax'')
                                        | Some d \<Rightarrow> Inr (softmax_call E d output2, g2))
                                     else Inr (output2, g2))
                           else Inr (output1, g2)))))"

section \<open>What the specification says about the head\<close>

text \<open>
  The stage list in the words of the specification: for depth 1 a single dropout-then-linear
  stage from the input width to the output width; otherwise an initial dropout-then-linear
  stage to the hidden width, depth - 2 repeated (activation, dropout, linear hidden-to-hidden)
  stages and, unless in featurizer mode, a final (activation, dropout, linear
  hidden-to-output) stage.
\<close>

definition spec_stage_list ::
  "'a \<Rightarrow> real \<Rightarrow> int \<Rightarrow> int \<Rightarrow> int \<Rightarrow> int \<Rightarrow> bool \<Rightarrow> 'a module list" where
  "spec_stage_list act p in_width hidden out depth feat =
     (if depth = 1 then [Dropout p, Linear in_width out]
      else [Dropout p, Linear in_width hidden]
           @ concat (replicate (nat (depth - 2)) [Activation act, Dropout p, Linear hidden hidden])
           @ (if feat then [] else [Activation act, Dropout p, Linear hidden out]))"

text \<open>
  The input width of the head in the words of the specification: the auxiliary features
  size alone under the features-only flag, otherwise the hidden size of the encoder, plus
  the width of the auxiliary feature vector when input features are used.
\<close>

definition spec_input_width :: "args \<Rightarrow> int" where
  "spec_input_width a =
     (if features_only a then features_size a
      else hidden_size a + (if use_input_features a then features_dim a else 0))"

text \<open>
  The output width in the words of the specification: the number of tasks, times the
  number of classes for the multiclass dataset type.
\<close>

definition spec_output_width :: "args \<Rightarrow> int" where
  "spec_output_width a =
     (if dataset_type a = ''multiclass'' then num_tasks a * multiclass_num_classes a
      else num_tasks a)"

text \<open>
  Widths of a stage list, read off the linear modules: \<open>in_features\<close> is the input width
  of the first linear module, and \<open>out_features w\<close> is the width that leaves the list when
  width \<open>w\<close> enters it (a linear module sets the width, every other module keeps it).
\<close>

fun in_features :: "'a module list \<Rightarrow> int option" where
  "in_features [] = None"
| "in_features (Linear i o' # ms) = Some i"
| "in_features (m # ms) = in_features ms"

fun out_features :: "int \<Rightarrow> 'a module list \<Rightarrow> int" where
  "out_features w [] = w"
| "out_features w (Linear i o' # ms) = out_features o' ms"
| "out_features w (m # ms) = out_features w ms"

text \<open>
  The shape rule of \<^verbatim>\<open>reshape\<close> in the tensor library, for a tensor of \<open>numel\<close>
  elements and a target shape: without a \<open>-1\<close> entry the sizes must multiply to
  \<open>numel\<close>; a single \<open>-1\<close> entry is replaced by the quotient, which must exist; anything
  else raises.
\<close>

definition resolve_shape :: "int \<Rightarrow> int list \<Rightarrow> int list option" where
  "resolve_shape numel target =
     (let known = prod_list (filter (\<lambda>d. d \<noteq> - 1) target);
          holes = length (filter (\<lambda>d. d = - 1) target)
      in if holes = 0 then (if known = numel then Some target else None)
         else if holes = 1 \<and> known \<noteq> 0 \<and> numel mod known = 0
              then Some (map (\<lambda>d. if d = - 1 then numel div known else d) target)
              else None)"


section \<open>A tensor engine to evaluate the model on\<close>

text \<open>
  An instance of the engine, on which the theorems below are evaluated. A tensor is its
  shape and its elements in row-major order, over the reals; \<open>None\<close> is an error raised
  by a tensor operation.
\<close>

datatype tensor = Tensor (shape: "int list") (elems: "real list")

text \<open>The rows of length \<open>n\<close> of a flat list.\<close>

definition chunks :: "nat \<Rightarrow> 'b list \<Rightarrow> 'b list list" where
  "chunks n xs = map (\<lambda>k. take n (drop (k * n) xs)) [0..<length xs div n]"

text \<open>Two activation modules, the rectifier and the hyperbolic tangent.\<close>

datatype activation_fn = ReLU | Tanh

fun activation_real :: "activation_fn \<Rightarrow> real \<Rightarrow> real" where
  "activation_real ReLU x = max 0 x"
| "activation_real Tanh x = tanh x"

definition sigmoid_real :: "real \<Rightarrow> real" where
  "sigmoid_real x = 1 / (1 + exp (- x))"

definition softmax_list :: "real list \<Rightarrow> real list" where
  "softmax_list xs = map (\<lambda>x. exp x / sum_list (map exp xs)) xs"

definition tensor_map :: "(real \<Rightarrow> real) \<Rightarrow> tensor \<Rightarrow> tensor" where
  "tensor_map f t = Tensor (shape t) (map f (elems t))"

text \<open>
  A linear module \<^verbatim>\<open>nn.Linear(i, o)\<close> whose weights are all 1 and whose bias is 0:
  every output of a row is the sum of the row. The last dimension must be \<open>i\<close>.
\<close>

definition ones_linear :: "int \<Rightarrow> int \<Rightarrow> tensor \<Rightarrow> tensor option" where
  "ones_linear i o' t =
     (if shape t \<noteq> [] \<and> last (shape t) = i \<and> 0 < i \<and> 0 \<le> o'
      then Some (Tensor (butlast (shape t) @ [o'])
                   (concat (map (\<lambda>row. replicate (nat o') (sum_list row))
                              (chunks (nat i) (elems t)))))
      else None)"

text \<open>
  Dropout: the identity in inference mode; in training mode each element is kept, and
  scaled by \<open>1 / (1 - p)\<close>, or zeroed, as the next draw of the generator says. The
  generator state is the list of draws to come, \<open>True\<close> for "keep" (and for every draw
  beyond the list).
\<close>

definition mask_dropout :: "real \<Rightarrow> bool \<Rightarrow> tensor \<Rightarrow> bool list \<Rightarrow> tensor \<times> bool list" where
  "mask_dropout p tr t g =
     (if tr
      then (let n = length (elems t);
                keep = take n (g @ replicate n True)
            in (Tensor (shape t) (map2 (\<lambda>k x. if k then x / (1 - p) else 0) keep (elems t)),
                drop n g))
      else (t, g))"

text \<open>Softmax along the last dimension.\<close>

definition last_dim_softmax :: "int \<Rightarrow> tensor \<Rightarrow> tensor option" where
  "last_dim_softmax d t =
     (if shape t \<noteq> [] \<and> d = int (length (shape t)) - 1 \<and> 0 < last (shape t)
      then Some (Tensor (shape t)
                   (concat (map softmax_list (chunks (nat (last (shape t))) (elems t)))))
      else None)"

text \<open>
  The engine. Its encoder is the identity: the input is taken to be what the message
  passing network returns.
\<close>

definition ones_engine :: "(tensor, unit, activation_fn, tensor option, bool list) engine" where
  "ones_engine =
     \<lparr> encoder_call = (\<lambda>enc tr x g. (Some x, g)),
       linear_call = (\<lambda>k i o' v. Option.bind v (ones_linear i o')),
       dropout_call = (\<lambda>p tr v g. case v of None \<Rightarrow> (None, g)
                                  | Some t \<Rightarrow> (case mask_dropout p tr t g of (t', g') \<Rightarrow> (Some t', g'))),
       activation_call = (\<lambda>a v. map_option (tensor_map (activation_real a)) v),
       sigmoid_call = (\<lambda>v. map_option (tensor_map sigmoid_real) v),
       softmax_call = (\<lambda>d v. Option.bind v (last_dim_softmax d)),
       tensor_size = (\<lambda>v d. case v of None \<Rightarrow> 0
                           | Some t \<Rightarrow> if 0 \<le> d \<and> nat d < length (shape t) then shape t ! nat d else 0),
       tensor_reshape = (\<lambda>v target. Option.bind v (\<lambda>t.
                           map_option (\<lambda>s. Tensor s (elems t))
                             (resolve_shape (prod_list (shape t)) target))) \<rparr>"

text \<open>
  Instances of the collaborators, and a configuration: regression, two feed-forward
  layers, encoder width 2, hidden width 4, three tasks.
\<close>

definition example_get_activation_function :: "string \<Rightarrow> error + activation_fn" where
  "example_get_activation_function name =
     (if name = ''ReLU'' then Inr ReLU
      else if name = ''tanh'' then Inr Tanh
      else Inl (ValueError name))"

definition example_MPN :: "args \<Rightarrow> unit" where
  "example_MPN a = ()"

definition example_args :: args where
  "example_args =
     \<lparr> num_tasks = 3, dataset_type = ''regression'', multiclass_num_classes = 5,
       featurizer = False, features_only = False, features_size = 0, hidden_size = 2,
       use_input_features = False, features_dim = 0, dropout = 1 / 2, activation = ''ReLU'',
       ffn_num_layers = 2, ffn_hidden_size = 4, output_size = None \<rparr>"

text \<open>
  The models that \<open>build_model\<close> returns for this configuration, for the configuration
  with the featurizer flag set, and for the latter with a single feed-forward layer.
\<close>

definition example_model :: "(unit, activation_fn) MoleculeModel" where
  "example_model =
     \<lparr> self_training = True, self_featurizer = False, self_classification = False,
       self_multiclass = False, self_sigmoid = None, self_multiclass_softmax = None,
       self_encoder = Some (), self_num_classes = None,
       self_ffn = Some [Dropout (1 / 2), Linear 2 4, Activation ReLU, Dropout (1 / 2), Linear 4 3] \<rparr>"

definition example_featurizer_model :: "(unit, activation_fn) MoleculeModel" where
  "example_featurizer_model =
     \<lparr> self_training = True, self_featurizer = True, self_classification = False,
       self_multiclass = False, self_sigmoid = None, self_multiclass_softmax = None,
       self_encoder = Some (), self_num_classes = None,
       self_ffn = Some [Dropout (1 / 2), Linear 2 4] \<rparr>"

definition example_featurizer_model_depth_one :: "(unit, activation_fn) MoleculeModel" where
  "example_featurizer_model_depth_one =
     \<lparr> self_training = True, self_featurizer = True, self_classification = False,
       self_multiclass = False, self_sigmoid = None, self_multiclass_softmax = None,
       self_encoder = Some (), self_num_classes = None,
       self_ffn = Some [Dropout (1 / 2), Linear 2 3] \<rparr>"

text \<open>
  The models that \<open>build_model\<close> returns for the configuration with the classification
  dataset type, and for the configuration with the multiclass dataset type and a single
  feed-forward layer (three tasks of five classes: output width 15).
\<close>

definition example_classification_model :: "(unit, activation_fn) MoleculeModel" where
  "example_classification_model =
     \<lparr> self_training = True, self_featurizer = False, self_classification = True,
       self_multiclass = False, self_sigmoid = Some (), self_multiclass_softmax = None,
       self_encoder = Some (), self_num_classes = None,
       self_ffn = Some [Dropout (1 / 2), Linear 2 4, Activation ReLU, Dropout (1 / 2), Linear 4 3] \<rparr>"

definition example_multiclass_model :: "(unit, activation_fn) MoleculeModel" where
  "example_multiclass_model =
     \<lparr> self_training = True, self_featurizer = False, self_classification = False,
       self_multiclass = True, self_sigmoid = None, self_multiclass_softmax = Some 2,
       self_encoder = Some (), self_num_classes = Some 5,
       self_ffn = Some [Dropout (1 / 2), Linear 2 15] \<rparr>"


definition example_input :: tensor where
  "example_input = Tensor [1, 2] [- 3, 1]"

section \<open>Auxiliary facts\<close>

lemmas example_defs = example_args_def example_MPN_def example_get_activation_function_def
  example_model_def example_featurizer_model_def example_featurizer_model_depth_one_def
  example_classification_model_def example_multiclass_model_def example_input_def

lemmas construction_defs = build_model_def MoleculeModel_init_def create_encoder_def
  create_ffn_def nn_Dropout_def nn_Linear_def initialize_weights_def Let_def

lemmas run_defs = forward_def featurize_def head_call_def Module_train_def

lemmas ones_engine_defs = ones_engine_def ones_linear_def mask_dropout_def tensor_map_def
  chunks_def last_dim_softmax_def resolve_shape_def Let_def eval_nat_numeral

lemma extend_loop_eq:
  "extend_loop k act drp h ffn =
     (if k = 0 \<or> 0 \<le> h
      then Inr (ffn @ concat (replicate k [act, drp, Linear h h]))
      else Inl (RuntimeError ''Trying to create tensor with negative dimension''))"
  by (induction k arbitrary: ffn) (auto simp: nn_Linear_def replicate_app_Cons_same)

lemma create_ffn_result:
  assumes "get_activation_function (activation a) = Inr act"
    and "output_size a = Some out"
    and "0 \<le> dropout a" and "dropout a \<le> 1"
    and "0 \<le> spec_input_width a" and "0 \<le> ffn_hidden_size a" and "0 \<le> out"
  shows "create_ffn get_activation_function self a =
           Inr ((if self_multiclass self
                 then self\<lparr>self_num_classes := Some (multiclass_num_classes a)\<rparr> else self)
                \<lparr>self_ffn := Some (spec_stage_list act (dropout a) (spec_input_width a)
                                    (ffn_hidden_size a) out (ffn_num_layers a)
                                    (self_featurizer self))\<rparr>)"
  using assms
  by (auto simp: create_ffn_def Let_def spec_stage_list_def spec_input_width_def extend_loop_eq
        nn_Dropout_def nn_Linear_def split: if_splits)

lemma create_ffn_Inr:
  assumes "create_ffn get_activation_function self a = Inr m"
  shows "\<exists>act. get_activation_function (activation a) = Inr act
           \<and> 0 \<le> dropout a \<and> dropout a \<le> 1
           \<and> (ffn_num_layers a = 1 \<or> \<not> self_featurizer self \<longrightarrow> output_size a \<noteq> None)
           \<and> m = (if self_multiclass self
                   then self\<lparr>self_num_classes := Some (multiclass_num_classes a)\<rparr> else self)
                  \<lparr>self_ffn := Some (spec_stage_list act (dropout a) (spec_input_width a)
                                      (ffn_hidden_size a)
                                      (case output_size a of None \<Rightarrow> 0 | Some out \<Rightarrow> out)
                                      (ffn_num_layers a) (self_featurizer self))\<rparr>"
  using assms
  by (auto simp: create_ffn_def Let_def spec_stage_list_def spec_input_width_def extend_loop_eq
        nn_Dropout_def nn_Linear_def split: sum.splits if_splits option.splits)

lemma build_model_result:
  fixes get_activation_function :: "string \<Rightarrow> error + 'a" and MPN :: "args \<Rightarrow> 'e"
  assumes "get_activation_function (activation a) = Inr act"
    and "0 \<le> dropout a" and "dropout a \<le> 1"
    and "0 \<le> spec_input_width a" and "0 \<le> ffn_hidden_size a"
    and "0 \<le> spec_output_width a"
  shows "build_model get_activation_function MPN a =
           Inr (a\<lparr>output_size := Some (spec_output_width a)\<rparr>,
                \<lparr> self_training = True,
                  self_featurizer = featurizer a,
                  self_classification = (dataset_type a = ''classification''),
                  self_multiclass = (dataset_type a = ''multiclass''),
                  self_sigmoid = (if \<not> featurizer a \<and> dataset_type a = ''classification''
                                  then Some () else None),
                  self_multiclass_softmax = (if \<not> featurizer a \<and> dataset_type a = ''multiclass''
                                             then Some 2 else None),
                  self_encoder = Some (MPN (a\<lparr>output_size := Some (spec_output_width a)\<rparr>)),
                  self_num_classes = (if dataset_type a = ''multiclass''
                                      then Some (multiclass_num_classes a) else None),
                  self_ffn = Some (spec_stage_list act (dropout a) (spec_input_width a)
                                     (ffn_hidden_size a) (spec_output_width a)
                                     (ffn_num_layers a) (featurizer a)) \<rparr>)"
proof -
  let ?a2 = "a\<lparr>output_size := Some (spec_output_width a)\<rparr>"
  have c: "create_ffn get_activation_function self ?a2 =
           Inr ((if self_multiclass self
                 then self\<lparr>self_num_classes := Some (multiclass_num_classes a)\<rparr> else self)
                \<lparr>self_ffn := Some (spec_stage_list act (dropout a) (spec_input_width a)
                                    (ffn_hidden_size a) (spec_output_width a) (ffn_num_layers a)
                                    (self_featurizer self))\<rparr>)" for self :: "('e, 'a) MoleculeModel"
  proof -
    have w: "spec_input_width ?a2 = spec_input_width a"
      by (simp add: spec_input_width_def)
    show ?thesis
      using create_ffn_result [of get_activation_function ?a2 act "spec_output_width a" self]
        assms
      by (simp add: w)
  qed
  have b: "build_model get_activation_function MPN a =
        (case MoleculeModel_init (featurizer a) (dataset_type a = ''classification'')
                (dataset_type a = ''multiclass'') of
           Inl e \<Rightarrow> Inl e
         | Inr model \<Rightarrow>
             (case create_ffn get_activation_function (create_encoder MPN model ?a2) ?a2 of
                Inl e \<Rightarrow> Inl e
              | Inr model2 \<Rightarrow> Inr (?a2, model2)))"
    by (cases "dataset_type a = ''multiclass''")
       (auto simp add: build_model_def Let_def spec_output_width_def initialize_weights_def
          split: sum.splits)
  show ?thesis
    by (simp add: b c MoleculeModel_init_def create_encoder_def Let_def)
qed

lemma build_model_Inr:
  fixes get_activation_function :: "string \<Rightarrow> error + 'a" and MPN :: "args \<Rightarrow> 'e"
  assumes "build_model get_activation_function MPN a = Inr (a', m)"
  shows "\<exists>act. get_activation_function (activation a) = Inr act
           \<and> a' = a\<lparr>output_size := Some (spec_output_width a)\<rparr>
           \<and> m = \<lparr> self_training = True,
                    self_featurizer = featurizer a,
                    self_classification = (dataset_type a = ''classification''),
                    self_multiclass = (dataset_type a = ''multiclass''),
                    self_sigmoid = (if \<not> featurizer a \<and> dataset_type a = ''classification''
                                    then Some () else None),
                    self_multiclass_softmax = (if \<not> featurizer a \<and> dataset_type a = ''multiclass''
                                               then Some 2 else None),
                    self_encoder = Some (MPN (a\<lparr>output_size := Some (spec_output_width a)\<rparr>)),
                    self_num_classes = (if dataset_type a = ''multiclass''
                                        then Some (multiclass_num_classes a) else None),
                    self_ffn = Some (spec_stage_list act (dropout a) (spec_input_width a)
                                       (ffn_hidden_size a) (spec_output_width a)
                                       (ffn_num_layers a) (featurizer a)) \<rparr>"
proof -
  let ?a2 = "a\<lparr>output_size := Some (spec_output_width a)\<rparr>"
  have b: "build_model get_activation_function MPN a =
        (case MoleculeModel_init (featurizer a) (dataset_type a = ''classification'')
                (dataset_type a = ''multiclass'') of
           Inl e \<Rightarrow> Inl e
         | Inr model \<Rightarrow>
             (case create_ffn get_activation_function (create_encoder MPN model ?a2) ?a2 of
                Inl e \<Rightarrow> Inl e
              | Inr model2 \<Rightarrow> Inr (?a2, model2)))"
    by (cases "dataset_type a = ''multiclass''")
       (auto simp add: build_model_def Let_def spec_output_width_def initialize_weights_def
          split: sum.splits)
  from assms b obtain model where
      i: "MoleculeModel_init (featurizer a) (dataset_type a = ''classification'')
            (dataset_type a = ''multiclass'') = Inr (model :: ('e, 'a) MoleculeModel)"
    and c: "create_ffn get_activation_function (create_encoder MPN model ?a2) ?a2 = Inr m"
    and a': "a' = ?a2"
    by (auto split: sum.splits)
  from create_ffn_Inr [OF c] obtain act where
      g: "get_activation_function (activation a) = Inr act"
    and m: "m = (if self_multiclass (create_encoder MPN model ?a2)
                 then (create_encoder MPN model ?a2)
                        \<lparr>self_num_classes := Some (multiclass_num_classes ?a2)\<rparr>
                 else create_encoder MPN model ?a2)
                \<lparr>self_ffn := Some (spec_stage_list act (dropout ?a2) (spec_input_width ?a2)
                                    (ffn_hidden_size ?a2)
                                    (case output_size ?a2 of None \<Rightarrow> 0 | Some out \<Rightarrow> out)
                                    (ffn_num_layers ?a2)
                                    (self_featurizer (create_encoder MPN model ?a2)))\<rparr>"
    by auto
  from i have model: "model = \<lparr> self_training = True,
                    self_featurizer = featurizer a,
                    self_classification = (dataset_type a = ''classification''),
                    self_multiclass = (dataset_type a = ''multiclass''),
                    self_sigmoid = (if \<not> featurizer a \<and> dataset_type a = ''classification''
                                    then Some () else None),
                    self_multiclass_softmax = (if \<not> featurizer a \<and> dataset_type a = ''multiclass''
                                               then Some 2 else None),
                    self_encoder = None, self_num_classes = None, self_ffn = None \<rparr>"
    by (auto simp: MoleculeModel_init_def Let_def split: if_splits)
  show ?thesis
    using g a' by (simp add: m model create_encoder_def spec_input_width_def)
qed

lemma Sequential_call_append:
  "Sequential_call E tr k (xs @ ys) v g =
     (case Sequential_call E tr k xs v g of
        (v', g') \<Rightarrow> Sequential_call E tr (k + length xs) ys v' g')"
  by (induction xs arbitrary: k v g) (auto split: prod.splits)

lemma head_call_append:
  "head_call E tr enc (xs @ ys) x g =
     (case head_call E tr enc xs x g of
        (v, g') \<Rightarrow> Sequential_call E tr (length xs) ys v g')"
  by (simp add: head_call_def Sequential_call_append split: prod.splits)

lemma out_features_append:
  "out_features w (xs @ ys) = out_features (out_features w xs) ys"
  by (induction w xs rule: out_features.induct) simp_all

lemma out_features_blocks:
  "out_features h (concat (replicate k [Activation act, Dropout p, Linear h h])) = h"
  by (induction k) simp_all

lemma out_features_spec_stage_list:
  "out_features w (spec_stage_list act p d h out depth feat) =
     (if depth = 1 \<or> \<not> feat then out else h)"
  by (simp add: spec_stage_list_def out_features_append out_features_blocks)

lemma in_features_spec_stage_list:
  "in_features (spec_stage_list act p d h out depth feat) = Some d"
  by (simp add: spec_stage_list_def)

lemma butlast_spec_stage_list:
  "butlast (spec_stage_list act p d h out depth False) =
     (if depth = 1 then [Dropout p]
      else spec_stage_list act p d h out depth True @ [Activation act, Dropout p])"
  by (simp add: spec_stage_list_def butlast_append)



section \<open>The claims\<close>

subsection \<open>C1: construction and the configuration conflict\<close>

text \<open>
  C1 as stated fails. The example configuration is a regression configuration, so neither
  flag is set, and still \<open>build_model\<close> raises: with a dropout probability of \<open>3/2\<close>
  the constructor of the dropout module raises, with the activation name \<open>foo\<close> the
  activation lookup raises, and with a hidden size of \<open>-1\<close> the constructor of the first
  linear module raises.
\<close>

theorem construction_raises_without_conflict:
  "dataset_type (example_args\<lparr>dropout := 3 / 2\<rparr>) \<noteq> ''classification''
   \<and> dataset_type (example_args\<lparr>dropout := 3 / 2\<rparr>) \<noteq> ''multiclass''
   \<and> (build_model example_get_activation_function example_MPN (example_args\<lparr>dropout := 3 / 2\<rparr>)
        :: error + args \<times> (unit, activation_fn) MoleculeModel)
       = Inl (ValueError ''dropout probability has to be between 0 and 1'')
   \<and> (build_model example_get_activation_function example_MPN
          (example_args\<lparr>activation := ''foo''\<rparr>)
        :: error + args \<times> (unit, activation_fn) MoleculeModel)
       = Inl (ValueError ''foo'')
   \<and> (build_model example_get_activation_function example_MPN
          (example_args\<lparr>hidden_size := - 1\<rparr>)
        :: error + args \<times> (unit, activation_fn) MoleculeModel)
       = Inl (RuntimeError ''Trying to create tensor with negative dimension'')"
  by (simp add: example_defs construction_defs)

text \<open>
  C1 as amended. The constructor raises the assertion error, the configuration conflict,
  if and only if both the classification and the multiclass flag are set, and otherwise it
  returns the model that carries the three flags. \<open>build_model\<close> completes with an
  assembled model, encoder and head in place and the flags taken from the dataset type,
  whenever the activation lookup succeeds, the dropout probability is in \<open>[0, 1]\<close> and
  the input, hidden and output widths are not negative.
\<close>

theorem constructor_conflict_and_build_model_completion:
  fixes get_activation_function :: "string \<Rightarrow> error + 'a" and MPN :: "args \<Rightarrow> 'e"
  shows "((MoleculeModel_init f c mc :: error + ('e, 'a) MoleculeModel) = Inl AssertionError)
           = (c \<and> mc)
       \<and> (\<not> (c \<and> mc) \<longrightarrow>
            (\<exists>m :: ('e, 'a) MoleculeModel. MoleculeModel_init f c mc = Inr m
                \<and> self_featurizer m = f \<and> self_classification m = c \<and> self_multiclass m = mc))
       \<and> (get_activation_function (activation a) = Inr act
            \<and> 0 \<le> dropout a \<and> dropout a \<le> 1
            \<and> 0 \<le> spec_input_width a \<and> 0 \<le> ffn_hidden_size a \<and> 0 \<le> spec_output_width a
          \<longrightarrow> (\<exists>a' m enc ffn.
                 build_model get_activation_function MPN a = Inr (a', m)
               \<and> self_encoder m = Some enc \<and> self_ffn m = Some ffn
               \<and> self_featurizer m = featurizer a
               \<and> self_classification m = (dataset_type a = ''classification'')
               \<and> self_multiclass m = (dataset_type a = ''multiclass'')))"
proof -
  have i: "((MoleculeModel_init f c mc :: error + ('e, 'a) MoleculeModel) = Inl AssertionError)
             = (c \<and> mc)"
    by (auto simp: MoleculeModel_init_def Let_def)
  have r: "\<not> (c \<and> mc) \<longrightarrow>
            (\<exists>m :: ('e, 'a) MoleculeModel. MoleculeModel_init f c mc = Inr m
                \<and> self_featurizer m = f \<and> self_classification m = c \<and> self_multiclass m = mc)"
    by (auto simp: MoleculeModel_init_def Let_def)
  have b: "get_activation_function (activation a) = Inr act
            \<and> 0 \<le> dropout a \<and> dropout a \<le> 1
            \<and> 0 \<le> spec_input_width a \<and> 0 \<le> ffn_hidden_size a \<and> 0 \<le> spec_output_width a
          \<longrightarrow> (\<exists>a' m enc ffn.
                 build_model get_activation_function MPN a = Inr (a', m)
               \<and> self_encoder m = Some enc \<and> self_ffn m = Some ffn
               \<and> self_featurizer m = featurizer a
               \<and> self_classification m = (dataset_type a = ''classification'')
               \<and> self_multiclass m = (dataset_type a = ''multiclass''))"
    by (simp add: build_model_result [of get_activation_function a act MPN])
  from i r b show ?thesis by blast
qed

theorem constructor_conflict_and_build_model_completion_witness:
  "(MoleculeModel_init False True False :: error + (unit, activation_fn) MoleculeModel)
       \<noteq> Inl AssertionError
   \<and> (\<exists>m :: (unit, activation_fn) MoleculeModel. MoleculeModel_init False True False = Inr m
          \<and> \<not> self_featurizer m \<and> self_classification m \<and> \<not> self_multiclass m)
   \<and> example_get_activation_function (activation example_args) = Inr ReLU
   \<and> 0 \<le> dropout example_args \<and> dropout example_args \<le> 1
   \<and> 0 \<le> spec_input_width example_args \<and> 0 \<le> ffn_hidden_size example_args
   \<and> 0 \<le> spec_output_width example_args
   \<and> (\<exists>a' m enc ffn.
          build_model example_get_activation_function example_MPN example_args = Inr (a', m)
        \<and> self_encoder m = Some enc \<and> self_ffn m = Some ffn
        \<and> \<not> self_featurizer m \<and> \<not> self_classification m \<and> \<not> self_multiclass m)"
  using constructor_conflict_and_build_model_completion
    [where f = False and c = True and mc = False and a = example_args and act = ReLU
       and get_activation_function = example_get_activation_function and MPN = example_MPN]
  by (simp add: example_defs spec_input_width_def spec_output_width_def)

subsection \<open>C2: featurize against a model built in featurizer mode\<close>

text \<open>
  C2 as stated fails. For the example configuration (two feed-forward layers) in inference
  mode, with the same weights under the same keys, \<open>featurize\<close> on the model built with
  \<open>featurizer = False\<close> returns zeros where \<open>forward\<close> on the model built with
  \<open>featurizer = True\<close> returns \<open>-2\<close>: \<^verbatim>\<open>self.ffn[:-1]\<close> removes the last linear
  module only, so the activation before it is still applied.
\<close>

theorem featurize_differs_from_featurizer_forward:
  "build_model example_get_activation_function example_MPN example_args
     = Inr (example_args\<lparr>output_size := Some 3\<rparr>, example_model)
   \<and> build_model example_get_activation_function example_MPN (example_args\<lparr>featurizer := True\<rparr>)
     = Inr (example_args\<lparr>featurizer := True, output_size := Some 3\<rparr>, example_featurizer_model)
   \<and> featurize ones_engine (Module_train False example_model) example_input []
     = Inr (Some (Tensor [1, 4] [0, 0, 0, 0]), [])
   \<and> forward ones_engine (Module_train False example_featurizer_model) example_input []
     = Inr (Some (Tensor [1, 4] [- 2, - 2, - 2, - 2]), [])
   \<and> featurize ones_engine (Module_train False example_model) example_input []
     \<noteq> forward ones_engine (Module_train False example_featurizer_model) example_input []"
  by (simp add: example_defs construction_defs run_defs ones_engine_defs)

text \<open>
  C2 as amended. For a depth other than 1, and for models built from configurations that
  differ in the featurizer flag only and hold the same encoder, \<open>featurize\<close> on the
  model built with \<open>featurizer = False\<close> is \<open>forward\<close> on the model built with
  \<open>featurizer = True\<close> followed by the activation and by dropout, in either run mode,
  from the same state of the random number generator and with the same weights.
\<close>

theorem featurize_is_activation_dropout_after_featurizer_forward:
  fixes get_activation_function :: "string \<Rightarrow> error + 'a" and MPN :: "args \<Rightarrow> 'e"
    and E :: "('x, 'e, 'a, 'v, 'g) engine"
  assumes "get_activation_function (activation a) = Inr act"
    and "ffn_num_layers a \<noteq> 1"
    and "build_model get_activation_function MPN (a\<lparr>featurizer := False\<rparr>) = Inr (aA, A)"
    and "build_model get_activation_function MPN (a\<lparr>featurizer := True\<rparr>) = Inr (aB, B)"
    and "self_encoder A = self_encoder B"
  shows "featurize E (Module_train tr A) x g =
           (case forward E (Module_train tr B) x g of
              Inl e \<Rightarrow> Inl e
            | Inr (h, g') \<Rightarrow>
                Inr (dropout_call E (dropout a) tr (activation_call E act h) g'))"
proof -
  from build_model_Inr [OF assms(3)] assms(1)
  have A: "self_ffn A = Some (spec_stage_list act (dropout a) (spec_input_width a)
        (ffn_hidden_size a) (spec_output_width a) (ffn_num_layers a) False)"
    and eA: "self_encoder A \<noteq> None"
    by (auto simp: spec_input_width_def spec_output_width_def)
  from build_model_Inr [OF assms(4)] assms(1)
  have B: "self_ffn B = Some (spec_stage_list act (dropout a) (spec_input_width a)
        (ffn_hidden_size a) (spec_output_width a) (ffn_num_layers a) True)"
    and fB: "self_featurizer B"
    by (auto simp: spec_input_width_def spec_output_width_def)
  from eA obtain enc where enc: "self_encoder A = Some enc" by auto
  with assms(5) have encB: "self_encoder B = Some enc" by simp
  show ?thesis
    using assms(2)
    by (simp add: featurize_def forward_def Module_train_def A B fB enc encB
          butlast_spec_stage_list head_call_append split: prod.splits)
qed

theorem featurize_is_activation_dropout_after_featurizer_forward_witness:
  "example_get_activation_function (activation example_args) = Inr ReLU
   \<and> ffn_num_layers example_args \<noteq> 1
   \<and> build_model example_get_activation_function example_MPN
        (example_args\<lparr>featurizer := False\<rparr>)
       = Inr (example_args\<lparr>output_size := Some 3\<rparr>, example_model)
   \<and> build_model example_get_activation_function example_MPN
        (example_args\<lparr>featurizer := True\<rparr>)
       = Inr (example_args\<lparr>featurizer := True, output_size := Some 3\<rparr>, example_featurizer_model)
   \<and> self_encoder example_model = self_encoder example_featurizer_model
   \<and> featurize ones_engine (Module_train False example_model) example_input [] =
       (case forward ones_engine (Module_train False example_featurizer_model) example_input [] of
          Inl e \<Rightarrow> Inl e
        | Inr (h, g') \<Rightarrow>
            Inr (dropout_call ones_engine (1 / 2) False (activation_call ones_engine ReLU h) g'))"
proof -
  have g: "example_get_activation_function (activation example_args) = Inr ReLU"
    by (simp add: example_defs)
  have d: "ffn_num_layers example_args \<noteq> 1"
    by (simp add: example_defs)
  have bA: "build_model example_get_activation_function example_MPN
              (example_args\<lparr>featurizer := False\<rparr>)
            = Inr (example_args\<lparr>output_size := Some 3\<rparr>, example_model)"
    by (simp add: example_defs construction_defs)
  have bB: "build_model example_get_activation_function example_MPN
              (example_args\<lparr>featurizer := True\<rparr>)
            = Inr (example_args\<lparr>featurizer := True, output_size := Some 3\<rparr>,
                   example_featurizer_model)"
    by (simp add: example_defs construction_defs)
  have e: "self_encoder example_model = self_encoder example_featurizer_model"
    by (simp add: example_defs)
  have p: "dropout example_args = 1 / 2"
    by (simp add: example_defs)
  show ?thesis
    using g d bA bB e
      featurize_is_activation_dropout_after_featurizer_forward
        [OF g d bA bB e, of ones_engine False example_input "[]"]
    by (simp only: p simp_thms)
qed

subsection \<open>C3: the stage list of the head\<close>

text \<open>
  C3. Whenever \<open>create_ffn\<close> returns, the head it has stored is exactly the stage list
  of the specification, with the activation module that the lookup returned and the output
  size of the configuration: for depth 1 dropout and a linear module from the input width
  to the output width; otherwise dropout and a linear module to the hidden width,
  depth - 2 blocks of activation, dropout and a hidden-to-hidden linear module and, unless
  the model is a featurizer, a block of activation, dropout and a hidden-to-output linear
  module. (For a depth below 1, of which the specification does not speak, the list is
  that of depth 2.)
\<close>

theorem create_ffn_builds_spec_stage_list:
  assumes "create_ffn get_activation_function self a = Inr self'"
    and "get_activation_function (activation a) = Inr act"
    and "output_size a = Some out"
  shows "self_ffn self' =
           Some (spec_stage_list act (dropout a) (spec_input_width a) (ffn_hidden_size a)
                   out (ffn_num_layers a) (self_featurizer self))"
  using create_ffn_Inr [OF assms(1)] assms(2,3) by auto

theorem create_ffn_builds_spec_stage_list_witness:
  "create_ffn example_get_activation_function example_model
       (example_args\<lparr>ffn_num_layers := 3, output_size := Some 3\<rparr>)
     = Inr (example_model\<lparr>self_ffn :=
              Some [Dropout (1 / 2), Linear 2 4,
                    Activation ReLU, Dropout (1 / 2), Linear 4 4,
                    Activation ReLU, Dropout (1 / 2), Linear 4 3]\<rparr>)
   \<and> example_get_activation_function
       (activation (example_args\<lparr>ffn_num_layers := 3, output_size := Some 3\<rparr>)) = Inr ReLU
   \<and> output_size (example_args\<lparr>ffn_num_layers := 3, output_size := Some 3\<rparr>) = Some 3
   \<and> self_ffn (example_model\<lparr>self_ffn :=
              Some [Dropout (1 / 2), Linear 2 4,
                    Activation ReLU, Dropout (1 / 2), Linear 4 4,
                    Activation ReLU, Dropout (1 / 2), Linear 4 3]\<rparr>)
       = Some (spec_stage_list ReLU (1 / 2) 2 4 3 3 False)"
proof -
  have c: "create_ffn example_get_activation_function example_model
             (example_args\<lparr>ffn_num_layers := 3, output_size := Some 3\<rparr>)
           = Inr (example_model\<lparr>self_ffn :=
              Some [Dropout (1 / 2), Linear 2 4,
                    Activation ReLU, Dropout (1 / 2), Linear 4 4,
                    Activation ReLU, Dropout (1 / 2), Linear 4 3]\<rparr>)"
    by (simp add: example_defs construction_defs eval_nat_numeral)
  have g: "example_get_activation_function
       (activation (example_args\<lparr>ffn_num_layers := 3, output_size := Some 3\<rparr>)) = Inr ReLU"
    by (simp add: example_defs)
  have o: "output_size (example_args\<lparr>ffn_num_layers := 3, output_size := Some 3\<rparr>) = Some 3"
    by simp
  show ?thesis
    using c g o create_ffn_builds_spec_stage_list [OF c g o]
    by (simp add: example_defs spec_input_width_def)
qed

subsection \<open>C4: classification mode\<close>

text \<open>
  C4. For a model that \<open>build_model\<close> returns for the classification dataset type and
  not as a featurizer, \<open>forward\<close> returns the output of the head unchanged in training
  mode and the sigmoid of the output of the head in inference mode.
\<close>

theorem forward_classification:
  fixes get_activation_function :: "string \<Rightarrow> error + 'a" and MPN :: "args \<Rightarrow> 'e"
    and E :: "('x, 'e, 'a, 'v, 'g) engine"
  assumes "build_model get_activation_function MPN a = Inr (a', m)"
    and "dataset_type a = ''classification''"
    and "\<not> featurizer a"
  shows "\<exists>enc ffn.
           self_encoder m = Some enc \<and> self_ffn m = Some ffn
         \<and> forward E (Module_train tr m) x g =
             (case head_call E tr enc ffn x g of
                (h, g') \<Rightarrow> Inr (if tr then h else sigmoid_call E h, g'))"
proof -
  from build_model_Inr [OF assms(1)] obtain act where
      e: "self_encoder m = Some (MPN (a\<lparr>output_size := Some (spec_output_width a)\<rparr>))"
    and f: "self_ffn m = Some (spec_stage_list act (dropout a) (spec_input_width a)
                                 (ffn_hidden_size a) (spec_output_width a)
                                 (ffn_num_layers a) (featurizer a))"
    and fl: "\<not> self_featurizer m" "self_classification m" "\<not> self_multiclass m"
            "self_sigmoid m = Some ()"
    using assms(2,3) by auto
  show ?thesis
    by (simp add: e f fl forward_def Module_train_def split: prod.splits)
qed

theorem forward_classification_witness:
  "build_model example_get_activation_function example_MPN
       (example_args\<lparr>dataset_type := ''classification''\<rparr>)
     = Inr (example_args\<lparr>dataset_type := ''classification'', output_size := Some 3\<rparr>,
            example_classification_model)
   \<and> dataset_type (example_args\<lparr>dataset_type := ''classification''\<rparr>) = ''classification''
   \<and> \<not> featurizer (example_args\<lparr>dataset_type := ''classification''\<rparr>)
   \<and> (\<exists>enc ffn.
          self_encoder example_classification_model = Some enc
        \<and> self_ffn example_classification_model = Some ffn
        \<and> forward ones_engine (Module_train False example_classification_model) example_input [] =
            (case head_call ones_engine False enc ffn example_input [] of
               (h, g') \<Rightarrow> Inr (sigmoid_call ones_engine h, g'))
        \<and> forward ones_engine (Module_train True example_classification_model) example_input [] =
            (case head_call ones_engine True enc ffn example_input [] of
               (h, g') \<Rightarrow> Inr (h, g')))"
proof -
  have b: "build_model example_get_activation_function example_MPN
       (example_args\<lparr>dataset_type := ''classification''\<rparr>)
     = Inr (example_args\<lparr>dataset_type := ''classification'', output_size := Some 3\<rparr>,
            example_classification_model)"
    by (simp add: example_defs construction_defs)
  have d: "dataset_type (example_args\<lparr>dataset_type := ''classification''\<rparr>) = ''classification''"
    by simp
  have f: "\<not> featurizer (example_args\<lparr>dataset_type := ''classification''\<rparr>)"
    by (simp add: example_defs)
  show ?thesis
    using b d f
      forward_classification [OF b d f, where E = ones_engine and tr = False
        and x = example_input and g = "[]"]
      forward_classification [OF b d f, where E = ones_engine and tr = True
        and x = example_input and g = "[]"]
    by (auto simp: example_classification_model_def)
qed

subsection \<open>C5: multiclass mode\<close>



subsection \<open>C6: the output width\<close>

text \<open>
  C6. Whenever \<open>build_model\<close> returns, the output size it has computed is the number of
  tasks, times the number of classes for the multiclass dataset type; this is the width
  that leaves the head whenever the head has its projection to the output (depth 1, or not
  a featurizer).
\<close>

theorem build_model_output_width:
  fixes get_activation_function :: "string \<Rightarrow> error + 'a" and MPN :: "args \<Rightarrow> 'e"
  assumes "build_model get_activation_function MPN a = Inr (a', m)"
  shows "output_size a' = Some (spec_output_width a)
       \<and> (\<exists>ffn. self_ffn m = Some ffn
            \<and> (ffn_num_layers a = 1 \<or> \<not> featurizer a \<longrightarrow>
                 (\<forall>w. out_features w ffn = spec_output_width a)))"
  using build_model_Inr [OF assms] by (auto simp: out_features_spec_stage_list)

theorem build_model_output_width_witness:
  "build_model example_get_activation_function example_MPN
       (example_args\<lparr>dataset_type := ''multiclass'', ffn_num_layers := 1\<rparr>)
     = Inr (example_args\<lparr>dataset_type := ''multiclass'', ffn_num_layers := 1,
                         output_size := Some 15\<rparr>,
            example_multiclass_model)
   \<and> output_size (example_args\<lparr>dataset_type := ''multiclass'', ffn_num_layers := 1,
                                 output_size := Some 15\<rparr>) = Some 15
   \<and> (\<exists>ffn. self_ffn example_multiclass_model = Some ffn \<and> (\<forall>w. out_features w ffn = 15))"
proof -
  have b: "build_model example_get_activation_function example_MPN
       (example_args\<lparr>dataset_type := ''multiclass'', ffn_num_layers := 1\<rparr>)
     = Inr (example_args\<lparr>dataset_type := ''multiclass'', ffn_num_layers := 1,
                         output_size := Some 15\<rparr>,
            example_multiclass_model)"
    by (simp add: example_defs construction_defs)
  show ?thesis
    using b build_model_output_width [OF b]
    by (simp add: example_defs spec_output_width_def)
qed

subsection \<open>C7: the input width\<close>

text \<open>
  C7. Whenever \<open>create_ffn\<close> returns, the first linear module of the head takes the
  width of the specification: the features size under the features-only flag, otherwise
  the hidden size of the encoder, plus the features dimension when input features are
  used.
\<close>

theorem create_ffn_input_width:
  assumes "create_ffn get_activation_function self a = Inr m"
  shows "\<exists>ffn. self_ffn m = Some ffn \<and> in_features ffn = Some (spec_input_width a)"
  using create_ffn_Inr [OF assms] by (auto simp: in_features_spec_stage_list)

theorem create_ffn_input_width_witness:
  "create_ffn example_get_activation_function example_model
       (example_args\<lparr>use_input_features := True, features_dim := 7, output_size := Some 3\<rparr>)
     = Inr (example_model\<lparr>self_ffn :=
              Some [Dropout (1 / 2), Linear 9 4, Activation ReLU, Dropout (1 / 2), Linear 4 3]\<rparr>)
   \<and> (\<exists>ffn. self_ffn (example_model\<lparr>self_ffn :=
              Some [Dropout (1 / 2), Linear 9 4, Activation ReLU, Dropout (1 / 2), Linear 4 3]\<rparr>)
               = Some ffn
          \<and> in_features ffn = Some 9)"
proof -
  have c: "create_ffn example_get_activation_function example_model
       (example_args\<lparr>use_input_features := True, features_dim := 7, output_size := Some 3\<rparr>)
     = Inr (example_model\<lparr>self_ffn :=
              Some [Dropout (1 / 2), Linear 9 4, Activation ReLU, Dropout (1 / 2), Linear 4 3]\<rparr>)"
    by (simp add: example_defs construction_defs)
  show ?thesis
    using c create_ffn_input_width [OF c]
    by (simp add: example_defs spec_input_width_def)
qed

subsection \<open>C8: featurizer mode at depth 1\<close>

text \<open>
  C8. The branch for a single feed-forward layer does not look at the featurizer flag: a
  model built as a featurizer with depth 1 has the head \<open>[Dropout, Linear 2 3]\<close>, and
  \<open>forward\<close> returns a tensor of the configured output width 3: the projection to the
  output was applied.
\<close>

theorem featurizer_depth_one_keeps_projection:
  "build_model example_get_activation_function example_MPN
       (example_args\<lparr>featurizer := True, ffn_num_layers := 1\<rparr>)
     = Inr (example_args\<lparr>featurizer := True, ffn_num_layers := 1, output_size := Some 3\<rparr>,
            example_featurizer_model_depth_one)
   \<and> self_ffn example_featurizer_model_depth_one = Some [Dropout (1 / 2), Linear 2 3]
   \<and> forward ones_engine (Module_train False example_featurizer_model_depth_one) example_input []
     = Inr (Some (Tensor [1, 3] [- 2, - 2, - 2]), [])"
  by (simp add: example_defs construction_defs run_defs ones_engine_defs)

text \<open>
  For every other depth a featurizer has no projection to the output: the width that
  leaves its head is the hidden width, whatever the output size, and \<open>forward\<close> returns
  the output of the head as it is.
\<close>

lemma featurizer_beyond_depth_one:
  fixes get_activation_function :: "string \<Rightarrow> error + 'a" and MPN :: "args \<Rightarrow> 'e"
    and E :: "('x, 'e, 'a, 'v, 'g) engine"
  assumes "build_model get_activation_function MPN a = Inr (a', m)"
    and "featurizer a"
    and "ffn_num_layers a \<noteq> 1"
  shows "\<exists>enc ffn.
           self_encoder m = Some enc \<and> self_ffn m = Some ffn
         \<and> (\<forall>w. out_features w ffn = ffn_hidden_size a)
         \<and> forward E (Module_train tr m) x g = Inr (head_call E tr enc ffn x g)"
proof -
  from build_model_Inr [OF assms(1)] obtain act where
      e: "self_encoder m = Some (MPN (a\<lparr>output_size := Some (spec_output_width a)\<rparr>))"
    and f: "self_ffn m = Some (spec_stage_list act (dropout a) (spec_input_width a)
                                 (ffn_hidden_size a) (spec_output_width a)
                                 (ffn_num_layers a) (featurizer a))"
    and fl: "self_featurizer m"
    using assms(2) by auto
  show ?thesis
    using assms(2,3)
    by (simp add: e f fl forward_def Module_train_def out_features_spec_stage_list
          split: prod.splits)
qed

subsection \<open>C9: the configuration after construction\<close>

text \<open>
  C9 as stated fails: \<open>build_model\<close> assigns \<^verbatim>\<open>args.output_size\<close>. The example
  configuration has no output size before the call and output size 3 after it.
\<close>

theorem build_model_changes_args:
  "build_model example_get_activation_function example_MPN example_args
     = Inr (example_args\<lparr>output_size := Some 3\<rparr>, example_model)
   \<and> output_size example_args = None
   \<and> output_size (example_args\<lparr>output_size := Some 3\<rparr>) = Some 3
   \<and> example_args\<lparr>output_size := Some 3\<rparr> \<noteq> example_args"
  by (simp add: example_defs construction_defs)

text \<open>
  C9 as amended. When \<open>build_model\<close> returns, it has assigned the output size, the
  number of tasks (times the number of classes for the multiclass dataset type), and every
  other attribute of the configuration is as it was.
\<close>

theorem build_model_assigns_output_size_only:
  fixes get_activation_function :: "string \<Rightarrow> error + 'a" and MPN :: "args \<Rightarrow> 'e"
  assumes "build_model get_activation_function MPN a = Inr (a', m)"
  shows "a' = a\<lparr>output_size := Some (spec_output_width a)\<rparr>
         \<and> num_tasks a' = num_tasks a
         \<and> dataset_type a' = dataset_type a
         \<and> multiclass_num_classes a' = multiclass_num_classes a
         \<and> featurizer a' = featurizer a
         \<and> features_only a' = features_only a
         \<and> features_size a' = features_size a
         \<and> hidden_size a' = hidden_size a
         \<and> use_input_features a' = use_input_features a
         \<and> features_dim a' = features_dim a
         \<and> dropout a' = dropout a
         \<and> activation a' = activation a
         \<and> ffn_num_layers a' = ffn_num_layers a
         \<and> ffn_hidden_size a' = ffn_hidden_size a"
  using build_model_Inr [OF assms] by auto

theorem build_model_assigns_output_size_only_witness:
  "build_model example_get_activation_function example_MPN example_args
     = Inr (example_args\<lparr>output_size := Some 3\<rparr>, example_model)
   \<and> example_args\<lparr>output_size := Some 3\<rparr>
       = example_args\<lparr>output_size := Some (spec_output_width example_args)\<rparr>
   \<and> num_tasks (example_args\<lparr>output_size := Some 3\<rparr>) = num_tasks example_args
   \<and> ffn_hidden_size (example_args\<lparr>output_size := Some 3\<rparr>) = ffn_hidden_size example_args"
proof -
  have b: "build_model example_get_activation_function example_MPN example_args
     = Inr (example_args\<lparr>output_size := Some 3\<rparr>, example_model)"
    by (simp add: example_defs construction_defs)
  show ?thesis
    using b build_model_assigns_output_size_only [OF b] by simp
qed

subsection \<open>C10: featurize at depth 1\<close>

text \<open>
  C10. For a model with a single feed-forward layer, whatever its flags, once
  \<open>create_ffn\<close> has returned the head is dropout and one linear module, \<open>featurize\<close>
  drops the linear module and returns the dropout of the output of the encoder, and the
  width that enters the remaining list leaves it unchanged: the width of the result is the
  input width of the head, not the hidden width and not the output width.
\<close>

theorem featurize_depth_one:
  fixes E :: "('x, 'e, 'a, 'v, 'g) engine"
  assumes "create_ffn get_activation_function self a = Inr m"
    and "ffn_num_layers a = 1"
    and "self_encoder self = Some enc"
  shows "\<exists>ffn. self_ffn m = Some ffn
           \<and> butlast ffn = [Dropout (dropout a)]
           \<and> featurize E (Module_train tr m) x g =
               (case encoder_call E enc tr x g of
                  (encoded, g1) \<Rightarrow> Inr (dropout_call E (dropout a) tr encoded g1))
           \<and> (\<forall>w. out_features w (butlast ffn) = w)"
  using create_ffn_Inr [OF assms(1)] assms(2,3)
  by (auto simp: spec_stage_list_def featurize_def Module_train_def head_call_def
        split: prod.splits)

theorem featurize_depth_one_witness:
  "create_ffn example_get_activation_function example_model
       (example_args\<lparr>ffn_num_layers := 1, output_size := Some 3\<rparr>)
     = Inr (example_model\<lparr>self_ffn := Some [Dropout (1 / 2), Linear 2 3]\<rparr>)
   \<and> ffn_num_layers (example_args\<lparr>ffn_num_layers := 1, output_size := Some 3\<rparr>) = 1
   \<and> self_encoder example_model = Some ()
   \<and> (\<exists>ffn. self_ffn (example_model\<lparr>self_ffn := Some [Dropout (1 / 2), Linear 2 3]\<rparr>) = Some ffn
          \<and> butlast ffn = [Dropout (1 / 2)]
          \<and> featurize ones_engine
               (Module_train False (example_model\<lparr>self_ffn := Some [Dropout (1 / 2), Linear 2 3]\<rparr>))
               example_input []
              = Inr (Some example_input, [])
          \<and> (\<forall>w. out_features w (butlast ffn) = w))"
proof -
  have c: "create_ffn example_get_activation_function example_model
       (example_args\<lparr>ffn_num_layers := 1, output_size := Some 3\<rparr>)
     = Inr (example_model\<lparr>self_ffn := Some [Dropout (1 / 2), Linear 2 3]\<rparr>)"
    by (simp add: example_defs construction_defs)
  have d: "ffn_num_layers (example_args\<lparr>ffn_num_layers := 1, output_size := Some 3\<rparr>) = 1"
    by simp
  have e: "self_encoder example_model = Some ()"
    by (simp add: example_defs)
  show ?thesis
    using c d e
      featurize_depth_one [OF c d e, where E = ones_engine and tr = False
        and x = example_input and g = "[]"]
    by (simp add: example_defs ones_engine_defs)
qed

end
